theory Spec2Isabelle
  imports Main "HOL-Library.Word" "HOL-Library.AList"
begin

unbundle bit_operations_syntax

section \<open>Shared vocabulary\<close>

text \<open>
  The numeric values of the error codes come from a generated table; the functions below
  only compare codes, so each code they name is a constructor, and \<open>TRI_ERROR_OTHER\<close>
  stands for any other code a collaborator returns.
\<close>

datatype errno =
    TRI_ERROR_NO_ERROR
  | TRI_ERROR_OUT_OF_MEMORY
  | TRI_ERROR_NOT_IMPLEMENTED
  | TRI_ERROR_TRANSACTION_INTERNAL
  | TRI_ERROR_ARANGO_CONFLICT
  | TRI_ERROR_ARANGO_COLLECTION_NOT_FOUND
  | TRI_ERROR_ARANGO_DOCUMENT_KEY_BAD
  | TRI_ERROR_ARANGO_DOCUMENT_TYPE_INVALID
  | TRI_ERROR_OTHER nat

text \<open>
  Ways a call can end without returning: a failed \<open>TRI_ASSERT\<close>, a C++ exception, or
  the dereference of a null pointer.
\<close>

datatype fault =
    AssertionFailed
  | BadAlloc
  | VPackInvalidValueType
  | VPackNumberOutOfRange
  | NullDereference

text \<open>
  \<open>TRI_ASSERT(cond)\<close>, a macro of the basics library. With assertions compiled in
  (\<open>maintainer = True\<close>) a false condition stops the program; compiled out, the macro
  does nothing and execution continues with \<open>k\<close>.
\<close>

definition TRI_ASSERT :: "bool \<Rightarrow> bool \<Rightarrow> (fault + 'a) \<Rightarrow> (fault + 'a)" where
  "TRI_ASSERT maintainer cond k =
     (if cond then k else if maintainer then Inl AssertionFailed else k)"

section \<open>datafile.h\<close>

type_synonym TRI_df_marker_type_t = "32 word"

definition TRI_WAL_MARKER_VPACK_DOCUMENT :: TRI_df_marker_type_t where
  "TRI_WAL_MARKER_VPACK_DOCUMENT = 5000"

definition TRI_WAL_MARKER_VPACK_REMOVE :: TRI_df_marker_type_t where
  "TRI_WAL_MARKER_VPACK_REMOVE = 5001"

text \<open>
  \<open>sizeof(TRI_df_marker_t)\<close>: \<open>_size\<close>, \<open>_crc\<close> and \<open>_type\<close> of 4 bytes each, 4 bytes of
  padding and the 8-byte \<open>_tick\<close>; the header itself notes "24 bytes" wherever the struct
  is embedded.
\<close>

definition sizeof_TRI_df_marker_t :: nat where
  "sizeof_TRI_df_marker_t = 24"

text \<open>\<open>AlignedSize<T>\<close>, at an unsigned type \<open>T\<close> of \<open>LENGTH('a)\<close> bits.\<close>

definition AlignedSize :: "'a::len word \<Rightarrow> 'a word" where
  "AlignedSize v = (v + 7) - ((v + 7) AND 7)"

text \<open>
  \<open>VPackOffset\<close>. \<open>TRI_voc_tid_t\<close> is a typedef of another header, so its size is the
  parameter \<open>sizeof_tid\<close>.
\<close>

definition VPackOffset :: "bool \<Rightarrow> nat \<Rightarrow> TRI_df_marker_type_t \<Rightarrow> fault + nat" where
  "VPackOffset maintainer sizeof_tid t =
     (if t = TRI_WAL_MARKER_VPACK_DOCUMENT \<or> t = TRI_WAL_MARKER_VPACK_REMOVE
      then Inr (sizeof_TRI_df_marker_t + sizeof_tid)
      else TRI_ASSERT maintainer False (Inr 0))"

section \<open>Transaction: begin, commit, abort\<close>

datatype TRI_transaction_status_e =
    TRI_TRANSACTION_UNDEFINED
  | TRI_TRANSACTION_CREATED
  | TRI_TRANSACTION_RUNNING
  | TRI_TRANSACTION_COMMITTED
  | TRI_TRANSACTION_ABORTED
  | TRI_TRANSACTION_FAILED

text \<open>The low-level handle \<open>TRI_transaction_t\<close>; only \<open>_status\<close> is touched here.\<close>

record TRI_transaction_t =
  status :: TRI_transaction_status_e

text \<open>
  The fields of \<open>Transaction\<close> that begin, commit and abort read. \<open>trx = None\<close> is the
  null handle. \<open>storage\<close> is everything the low-level calls may change besides the handle.
\<close>

record 's Transaction =
  trx :: "TRI_transaction_t option"
  setupState :: errno
  nestingLevel :: int
  isReal :: bool
  hints :: nat
  storage :: 's


type_synonym 's low_finish =
  "TRI_transaction_t \<Rightarrow> int \<Rightarrow> 's \<Rightarrow> errno \<times> TRI_transaction_t \<times> 's"

text \<open>\<open>Transaction::getStatus\<close>: the status of the handle, undefined without one.\<close>

definition getStatus :: "'s Transaction \<Rightarrow> TRI_transaction_status_e" where
  "getStatus t = (case trx t of None \<Rightarrow> TRI_TRANSACTION_UNDEFINED | Some h \<Rightarrow> status h)"


definition commit :: "'s low_finish \<Rightarrow> 's Transaction \<Rightarrow> errno \<times> 's Transaction" where
  "commit TRI_CommitTransaction t =
     (case trx t of
        None \<Rightarrow> (TRI_ERROR_TRANSACTION_INTERNAL, t)
      | Some h \<Rightarrow>
          if getStatus t \<noteq> TRI_TRANSACTION_RUNNING then (TRI_ERROR_TRANSACTION_INTERNAL, t)
          else if \<not> isReal t then
            (if nestingLevel t = 0
             then (TRI_ERROR_NO_ERROR, t\<lparr>trx := Some (h\<lparr>status := TRI_TRANSACTION_COMMITTED\<rparr>)\<rparr>)
             else (TRI_ERROR_NO_ERROR, t))
          else
            (case TRI_CommitTransaction h (nestingLevel t) (storage t) of
               (res, h', s') \<Rightarrow> (res, t\<lparr>trx := Some h', storage := s'\<rparr>)))"

definition abort :: "'s low_finish \<Rightarrow> 's Transaction \<Rightarrow> errno \<times> 's Transaction" where
  "abort TRI_AbortTransaction t =
     (case trx t of
        None \<Rightarrow> (TRI_ERROR_TRANSACTION_INTERNAL, t)
      | Some h \<Rightarrow>
          if getStatus t \<noteq> TRI_TRANSACTION_RUNNING then (TRI_ERROR_TRANSACTION_INTERNAL, t)
          else if \<not> isReal t then
            (if nestingLevel t = 0
             then (TRI_ERROR_NO_ERROR, t\<lparr>trx := Some (h\<lparr>status := TRI_TRANSACTION_ABORTED\<rparr>)\<rparr>)
             else (TRI_ERROR_NO_ERROR, t))
          else
            (case TRI_AbortTransaction h (nestingLevel t) (storage t) of
               (res, h', s') \<Rightarrow> (res, t\<lparr>trx := Some h', storage := s'\<rparr>)))"

section \<open>Velocypack values\<close>

text \<open>
  The velocypack library is a dependency of the transaction code. A slice is modelled by
  its value: \<open>VNone\<close> is the slice \<open>get\<close> returns for a missing attribute,
  \<open>VInt\<close> covers the signed integer types, \<open>VUInt\<close> the unsigned one, \<open>VCustom\<close> holds
  the bytes of a custom-typed value, and an object is the list of its attributes.
\<close>

datatype vpack =
    VNone
  | VNull
  | VBool bool
  | VDouble "64 word"
  | VInt int
  | VUInt "64 word"
  | VString string
  | VArray "vpack list"
  | VObject "(string \<times> vpack) list"
  | VCustom "8 word list"

fun isNone :: "vpack \<Rightarrow> bool" where
  "isNone VNone = True"
| "isNone _ = False"

fun isString :: "vpack \<Rightarrow> bool" where
  "isString (VString _) = True"
| "isString _ = False"

fun isInteger :: "vpack \<Rightarrow> bool" where
  "isInteger (VInt _) = True"
| "isInteger (VUInt _) = True"
| "isInteger _ = False"

fun isObject :: "vpack \<Rightarrow> bool" where
  "isObject (VObject _) = True"
| "isObject _ = False"

text \<open>\<open>Slice::get\<close>: the attribute's value, the None slice when the object lacks it, an
  exception on anything but an object.\<close>

fun get :: "vpack \<Rightarrow> string \<Rightarrow> fault + vpack" where
  "get (VObject kvs) k = (case map_of kvs k of None \<Rightarrow> Inr VNone | Some v \<Rightarrow> Inr v)"
| "get _ k = Inl VPackInvalidValueType"

text \<open>\<open>Slice::copyString\<close>: an exception on anything but a string.\<close>

fun copyString :: "vpack \<Rightarrow> fault + string" where
  "copyString (VString s) = Inr s"
| "copyString _ = Inl VPackInvalidValueType"

text \<open>\<open>Slice::getNumber<uint64_t>\<close> on an integer slice: a negative value is out of range.\<close>

fun getNumber :: "vpack \<Rightarrow> fault + 64 word" where
  "getNumber (VUInt w) = Inr w"
| "getNumber (VInt i) = (if i < 0 then Inl VPackNumberOutOfRange else Inr (word_of_int i))"
| "getNumber _ = Inl VPackInvalidValueType"

text \<open>
  \<open>VPackCollection::merge(left, right, false, false)\<close>: every attribute of \<open>left\<close> in
  order, with the value \<open>right\<close> gives for its name when there is one (that name is then
  erased from the table of right values), followed by what remains of \<open>right\<close>.
\<close>

fun merge_left ::
  "(string \<times> vpack) list \<Rightarrow> (string \<times> vpack) list \<Rightarrow> (string \<times> vpack) list \<times> (string \<times> vpack) list"
where
  "merge_left [] rightValues = ([], rightValues)"
| "merge_left ((k, v) # left) rightValues =
     (case map_of rightValues k of
        None \<Rightarrow>
          (case merge_left left rightValues of (out, rest) \<Rightarrow> ((k, v) # out, rest))
      | Some v' \<Rightarrow>
          (case merge_left left (AList.delete k rightValues) of (out, rest) \<Rightarrow> ((k, v') # out, rest)))"

fun VPackCollection_merge :: "vpack \<Rightarrow> vpack \<Rightarrow> fault + vpack" where
  "VPackCollection_merge (VObject left) (VObject right) =
     (case merge_left left (AList.clearjunk right) of (out, rest) \<Rightarrow> Inr (VObject (out @ rest)))"
| "VPackCollection_merge _ _ = Inl VPackInvalidValueType"

text \<open>\<open>std::to_string\<close> of an unsigned number: its decimal digits.\<close>

definition digit_char :: "nat \<Rightarrow> char" where
  "digit_char d = ''0123456789'' ! d"

fun to_string :: "nat \<Rightarrow> string" where
  "to_string n = (if n < 10 then [digit_char n] else to_string (n div 10) @ [digit_char (n mod 10)])"

declare to_string.simps [simp del]

text \<open>
  Modelled from the spec: \<open>MarkerHelper::storeNumber<uint64_t>(p, value, length)\<close> of
  \<open>Storage/Marker.h\<close>, which is not among the files modelled here; the spec calls the
  result a fixed-width binary encoding of the collection id. The bytes are written lowest
  first.
\<close>

definition storeNumber :: "64 word \<Rightarrow> nat \<Rightarrow> 8 word list" where
  "storeNumber v n = map (\<lambda>i. ucast (drop_bit (8 * i) v)) [0..<n]"

section \<open>Transaction: document, insert, remove\<close>

definition TRI_VOC_ATTRIBUTE_KEY :: string where "TRI_VOC_ATTRIBUTE_KEY = ''_key''"
definition TRI_VOC_ATTRIBUTE_REV :: string where "TRI_VOC_ATTRIBUTE_REV = ''_rev''"
definition TRI_VOC_ATTRIBUTE_ID :: string where "TRI_VOC_ATTRIBUTE_ID = ''_id''"

datatype TRI_transaction_type_e = TRI_TRANSACTION_READ | TRI_TRANSACTION_WRITE

datatype TRI_doc_update_policy_e = TRI_DOC_UPDATE_LAST_WRITE | TRI_DOC_UPDATE_ERROR

text \<open>\<open>TRI_doc_update_policy_t\<close>; its third member, the address of \<open>actualRevision\<close>, is
  what the physical remove returns.\<close>

record TRI_doc_update_policy_t =
  policy_type :: TRI_doc_update_policy_e
  policy_expectedRevision :: "64 word"

text \<open>\<open>TRI_doc_mptr_copy_t\<close>: the revision and the data pointer (\<open>None\<close> is null).\<close>

record TRI_doc_mptr_copy_t =
  rid :: "64 word"
  getDataPtr :: "vpack option"

record OperationResult =
  code :: errno
  buffer :: "vpack option"

definition OperationResult_code :: "errno \<Rightarrow> OperationResult" where
  "OperationResult_code c = \<lparr>code = c, buffer = None\<rparr>"

text \<open>
  What the three operations call in other modules, as parameters: the resolver, \<open>StringUtils::uint64\<close>, \<open>orderDitch\<close> (\<open>True\<close> when a ditch was
  obtained), \<open>isLocked\<close>, the collection's physical read, insert and remove over a
  collection state \<open>'c\<close>, the key generator, and whether assertions are compiled in.
  The physical remove returns the value it leaves in \<open>actualRevision\<close>.
\<close>

record 'c collaborators =
  getCollectionId :: "string \<Rightarrow> 64 word"
  uint64 :: "string \<Rightarrow> 64 word"
  orderDitch :: "64 word \<Rightarrow> bool"
  isLocked :: "64 word \<Rightarrow> TRI_transaction_type_e \<Rightarrow> bool"
  doc_read :: "'c \<Rightarrow> 64 word \<Rightarrow> string \<Rightarrow> bool \<Rightarrow> errno \<times> TRI_doc_mptr_copy_t"
  doc_insert :: "'c \<Rightarrow> 64 word \<Rightarrow> vpack \<Rightarrow> bool \<Rightarrow> bool \<Rightarrow> errno \<times> TRI_doc_mptr_copy_t \<times> 'c"
  doc_remove ::
    "'c \<Rightarrow> 64 word \<Rightarrow> vpack \<Rightarrow> TRI_doc_update_policy_t \<Rightarrow> bool \<Rightarrow> bool \<Rightarrow> errno \<times> 64 word \<times> 'c"
  generate :: "64 word \<Rightarrow> string"
  validate :: "string \<Rightarrow> bool \<Rightarrow> errno"
  maintainer :: bool

text \<open>Sequencing of calls that may throw.\<close>

definition bind_fault :: "fault + 'a \<Rightarrow> ('a \<Rightarrow> fault + 'b) \<Rightarrow> fault + 'b" where
  "bind_fault m f = (case m of Inl e \<Rightarrow> Inl e | Inr x \<Rightarrow> f x)"

text \<open>
  The block "extract _rev", the same in \<open>documentLocal\<close> and \<open>removeLocal\<close>: the value
  of \<open>expectedRevision\<close> after it, starting from 0.
\<close>

definition extract_rev :: "'c collaborators \<Rightarrow> vpack \<Rightarrow> fault + 64 word" where
  "extract_rev env r =
     (if \<not> isNone r then
        (if isString r then bind_fault (copyString r) (\<lambda>s. Inr (uint64 env s))
         else if isInteger r then getNumber r
         else Inr 0)
      else Inr 0)"

definition documentLocal ::
  "'c collaborators \<Rightarrow> 'c \<Rightarrow> string \<Rightarrow> vpack \<Rightarrow> fault + OperationResult"
where
  "documentLocal env c collectionName value =
     (let cid = getCollectionId env collectionName in
      if cid = 0 then Inr (OperationResult_code TRI_ERROR_ARANGO_COLLECTION_NOT_FOUND)
      else
        bind_fault
          (if isObject value then
             bind_fault (get value TRI_VOC_ATTRIBUTE_KEY) (\<lambda>k.
               if \<not> isString k then Inr (Inl TRI_ERROR_ARANGO_DOCUMENT_KEY_BAD)
               else
                 bind_fault (copyString k) (\<lambda>key.
                 bind_fault (get value TRI_VOC_ATTRIBUTE_REV) (\<lambda>r.
                 bind_fault (extract_rev env r) (\<lambda>expectedRevision.
                   Inr (Inr (key, expectedRevision))))))
           else if isString value then
             bind_fault (copyString value) (\<lambda>key. Inr (Inr (key, 0)))
           else Inr (Inl TRI_ERROR_ARANGO_DOCUMENT_KEY_BAD))
          (\<lambda>extracted.
             case extracted of
               Inl e \<Rightarrow> Inr (OperationResult_code e)
             | Inr (key, expectedRevision) \<Rightarrow>
                 if \<not> orderDitch env cid then Inr (OperationResult_code TRI_ERROR_OUT_OF_MEMORY)
                 else
                   (case doc_read env c cid key (\<not> isLocked env cid TRI_TRANSACTION_READ) of
                      (res, mptr) \<Rightarrow>
                        if res \<noteq> TRI_ERROR_NO_ERROR then Inr (OperationResult_code res)
                        else
                          TRI_ASSERT (maintainer env) (getDataPtr mptr \<noteq> None)
                            (if expectedRevision \<noteq> 0 \<and> expectedRevision \<noteq> rid mptr
                             then Inr (OperationResult_code TRI_ERROR_ARANGO_CONFLICT)
                             else
                               (case getDataPtr mptr of
                                  None \<Rightarrow> Inl NullDereference
                                | Some vpack \<Rightarrow>
                                    Inr \<lparr>code = TRI_ERROR_NO_ERROR, buffer = Some vpack\<rparr>)))))"

text \<open>
  \<open>insertLocal\<close>. \<open>tick\<close> is the value \<open>TRI_NewTickServer()\<close> returns in this call;
  \<open>waitForSync\<close> is \<open>options.waitForSync\<close>.
\<close>

definition insertLocal ::
  "'c collaborators \<Rightarrow> 'c \<Rightarrow> 64 word \<Rightarrow> string \<Rightarrow> vpack \<Rightarrow> bool \<Rightarrow> (fault + OperationResult) \<times> 'c"
where
  "insertLocal env c tick collectionName value waitForSync =
     (let cid = getCollectionId env collectionName in
      if cid = 0 then (Inr (OperationResult_code TRI_ERROR_ARANGO_COLLECTION_NOT_FOUND), c)
      else
        (case
           bind_fault (get value TRI_VOC_ATTRIBUTE_KEY) (\<lambda>key.
             if isNone key then
               Inr (Inr [(TRI_VOC_ATTRIBUTE_KEY, VString (generate env tick))])
             else if \<not> isString key then Inr (Inl TRI_ERROR_ARANGO_DOCUMENT_KEY_BAD)
             else
               bind_fault (copyString key) (\<lambda>s.
                 let res = validate env s False in
                 if res \<noteq> TRI_ERROR_NO_ERROR then Inr (Inl res) else Inr (Inr [])))
         of
           Inl f \<Rightarrow> (Inl f, c)
         | Inr (Inl e) \<Rightarrow> (Inr (OperationResult_code e), c)
         | Inr (Inr merge_key) \<Rightarrow>
             let merge = VObject (merge_key @
                   [(TRI_VOC_ATTRIBUTE_REV, VString (to_string (unat tick))),
                    (TRI_VOC_ATTRIBUTE_ID, VCustom (0xf3 # storeNumber cid 8))])
             in
             (case VPackCollection_merge value merge of
                Inl f \<Rightarrow> (Inl f, c)
              | Inr insertSlice \<Rightarrow>
                  if \<not> orderDitch env cid then (Inr (OperationResult_code TRI_ERROR_OUT_OF_MEMORY), c)
                  else
                    (case doc_insert env c cid insertSlice
                            (\<not> isLocked env cid TRI_TRANSACTION_WRITE) waitForSync of
                       (res, mptr, c') \<Rightarrow>
                         if res \<noteq> TRI_ERROR_NO_ERROR then (Inr (OperationResult_code res), c')
                         else
                           (TRI_ASSERT (maintainer env) (getDataPtr mptr \<noteq> None)
                              (case getDataPtr mptr of
                                 None \<Rightarrow> Inl NullDereference
                               | Some vpack \<Rightarrow>
                                   bind_fault (get vpack TRI_VOC_ATTRIBUTE_KEY) (\<lambda>k.
                                   bind_fault (copyString k) (\<lambda>resultKey.
                                   bind_fault (get vpack TRI_VOC_ATTRIBUTE_REV) (\<lambda>r.
                                   bind_fault (copyString r) (\<lambda>rev.
                                     Inr \<lparr>code = TRI_ERROR_NO_ERROR,
                                          buffer = Some (VObject
                                            [(TRI_VOC_ATTRIBUTE_ID,
                                                VString (collectionName @ ''/'' @ resultKey)),
                                             (TRI_VOC_ATTRIBUTE_REV, VString rev),
                                             (TRI_VOC_ATTRIBUTE_KEY, VString resultKey)])\<rparr>))))),
                            c')))))"

text \<open>
  \<open>removeLocal\<close>. The local \<open>key\<close> is declared empty and no statement of the function
  assigns it; the response is built from it.
\<close>

definition removeLocal ::
  "'c collaborators \<Rightarrow> 'c \<Rightarrow> string \<Rightarrow> vpack \<Rightarrow> bool \<Rightarrow> (fault + OperationResult) \<times> 'c"
where
  "removeLocal env c collectionName value waitForSync =
     (let cid = getCollectionId env collectionName in
      if cid = 0 then (Inr (OperationResult_code TRI_ERROR_ARANGO_COLLECTION_NOT_FOUND), c)
      else
        let key = [] in
        (case
           (if isObject value then
              bind_fault (get value TRI_VOC_ATTRIBUTE_KEY) (\<lambda>k.
                if \<not> isString k then Inr (Inl TRI_ERROR_ARANGO_DOCUMENT_KEY_BAD)
                else
                  bind_fault (get value TRI_VOC_ATTRIBUTE_REV) (\<lambda>r.
                  bind_fault (extract_rev env r) (\<lambda>expectedRevision.
                    Inr (Inr ([(TRI_VOC_ATTRIBUTE_KEY, k)], expectedRevision)))))
            else if isString value then Inr (Inr ([(TRI_VOC_ATTRIBUTE_KEY, value)], 0))
            else Inr (Inr ([], 0)))
         of
           Inl f \<Rightarrow> (Inl f, c)
         | Inr (Inl e) \<Rightarrow> (Inr (OperationResult_code e), c)
         | Inr (Inr (builder, expectedRevision)) \<Rightarrow>
             let removeSlice = VObject (builder @
                   [(TRI_VOC_ATTRIBUTE_REV, VString (to_string (unat expectedRevision)))]);
                 updatePolicy =
                   \<lparr>policy_type = (if expectedRevision = 0 then TRI_DOC_UPDATE_LAST_WRITE
                                   else TRI_DOC_UPDATE_ERROR),
                    policy_expectedRevision = expectedRevision\<rparr>
             in
             (case doc_remove env c cid removeSlice updatePolicy
                     (\<not> isLocked env cid TRI_TRANSACTION_WRITE) waitForSync of
                (res, actualRevision, c') \<Rightarrow>
                  if res \<noteq> TRI_ERROR_NO_ERROR then (Inr (OperationResult_code res), c')
                  else
                    (Inr \<lparr>code = TRI_ERROR_NO_ERROR,
                         buffer = Some (VObject
                           [(TRI_VOC_ATTRIBUTE_ID, VString (collectionName @ ''/'' @ key)),
                            (TRI_VOC_ATTRIBUTE_REV, VString (to_string (unat actualRevision))),
                            (TRI_VOC_ATTRIBUTE_KEY, VString key)])\<rparr>,
                     c'))))"

section \<open>Transaction: the scan helpers\<close>

text \<open>
  \<open>BucketPosition\<close>: the cursor of an index traversal. A default-constructed cursor is
  \<open>Fresh\<close>; \<open>At i\<close> points at entry \<open>i\<close> of the index; \<open>Exhausted\<close> is a traversal
  that has run off its end.
\<close>

datatype BucketPosition = Fresh | At nat | Exhausted

text \<open>
  Modelled from the spec: \<open>lookupSequential\<close> of the primary index
  (\<open>Indexes/PrimaryIndex.h\<close>, not among the files modelled here). The spec gives
  \<open>lookupSequential(txn, &cursor, &totalSeen) -> pointer|none\<close> over a caller-owned
  cursor. The index is the list of its entries in its native order; a fresh cursor starts
  at the first entry; the first call stores the number of entries in \<open>total\<close>.
\<close>

fun lookupSequential ::
  "'d list \<Rightarrow> BucketPosition \<Rightarrow> 64 word \<Rightarrow> 'd option \<times> BucketPosition \<times> 64 word"
where
  "lookupSequential idx Fresh tot =
     (if idx = [] then (None, Exhausted, 0) else (Some (idx ! 0), At 1, of_nat (length idx)))"
| "lookupSequential idx (At i) tot =
     (if i < length idx then (Some (idx ! i), At (Suc i), tot) else (None, Exhausted, tot))"
| "lookupSequential idx Exhausted tot = (None, Exhausted, tot)"

text \<open>
  Modelled from the spec: \<open>lookupSequentialReverse\<close> of the primary index, missing for
  the same reason. The spec gives \<open>lookupSequentialReverse(txn, &cursor) -> pointer|none\<close>;
  a fresh cursor starts at the last entry of the index and the traversal moves towards
  the first.
\<close>

fun lookupSequentialReverse :: "'d list \<Rightarrow> BucketPosition \<Rightarrow> 'd option \<times> BucketPosition" where
  "lookupSequentialReverse idx Fresh =
     (if idx = [] then (None, Exhausted)
      else (Some (idx ! (length idx - 1)),
            if length idx = 1 then Exhausted else At (length idx - 2)))"
| "lookupSequentialReverse idx (At i) =
     (if i < length idx then (Some (idx ! i), if i = 0 then Exhausted else At (i - 1))
      else (None, Exhausted))"
| "lookupSequentialReverse idx Exhausted = (None, Exhausted)"

text \<open>The number of entries a traversal can still return: the measure of the scan loops.\<close>

fun remaining :: "'d list \<Rightarrow> BucketPosition \<Rightarrow> nat" where
  "remaining idx Fresh = Suc (length idx)"
| "remaining idx (At i) = length idx - i"
| "remaining idx Exhausted = 0"

fun remaining_reverse :: "'d list \<Rightarrow> BucketPosition \<Rightarrow> nat" where
  "remaining_reverse idx Fresh = Suc (Suc (length idx))"
| "remaining_reverse idx (At i) = Suc (Suc i)"
| "remaining_reverse idx Exhausted = 0"

text \<open>
  What the helpers run against. \<open>lock_res\<close> is what \<open>this->lock(trxCollection, READ)\<close>
  returns, \<open>ditch\<close> whether \<open>orderDitch\<close> returns a ditch, \<open>index\<close> the primary index,
  \<open>capacity\<close> the number of elements a vector can hold before its allocation throws,
  \<open>lookupRandom\<close> the random traversal over its four cursor arguments \<open>'r\<close>, and
  \<open>TRI_EXTRACT_MARKER_KEY\<close> the key of an entry.
\<close>

record ('d, 'r) scan_env =
  lock_res :: errno
  ditch :: bool
  index :: "'d list"
  capacity :: nat
  lookupRandom :: "'r \<Rightarrow> 'd option \<times> 'r"
  TRI_EXTRACT_MARKER_KEY :: "'d \<Rightarrow> string"
  assertions :: bool

text \<open>
  Modelled from the spec: \<open>Transaction::lock\<close>, declared in the class header, which is
  not among the files modelled here. \<open>held\<close> counts the read locks this transaction
  holds on the collection: a successful \<open>lock\<close> takes one.
\<close>

definition lock :: "('d, 'r) scan_env \<Rightarrow> nat \<Rightarrow> errno \<times> nat" where
  "lock env held =
     (if lock_res env = TRI_ERROR_NO_ERROR then (TRI_ERROR_NO_ERROR, Suc held)
      else (lock_res env, held))"

text \<open>
  Modelled from the spec: \<open>Transaction::unlock\<close>, missing for the same reason: it gives
  one read lock back.
\<close>

definition unlock :: "nat \<Rightarrow> nat" where
  "unlock held = held - 1"

text \<open>\<open>std::vector::reserve\<close> and \<open>emplace_back\<close>: they throw when the storage cannot be had.\<close>

definition reserve :: "nat \<Rightarrow> 'a list \<Rightarrow> nat \<Rightarrow> fault + unit" where
  "reserve cap xs n = (if n \<le> cap then Inr () else Inl BadAlloc)"

definition emplace_back :: "nat \<Rightarrow> 'a list \<Rightarrow> 'a \<Rightarrow> fault + 'a list" where
  "emplace_back cap xs x = (if length xs < cap then Inr (xs @ [x]) else Inl BadAlloc)"

text \<open>
  The loop of \<open>readIncremental\<close>, over \<open>count\<close> and the reference arguments \<open>docs\<close>,
  \<open>internalSkip\<close>, \<open>skip\<close> and \<open>total\<close> (written \<open>tot\<close>, the longer name being taken);
  \<open>Inl\<close> is an exception leaving the loop.
\<close>

function readIncremental_loop ::
  "('d, 'r) scan_env \<Rightarrow> 64 word \<Rightarrow> 64 word \<Rightarrow> 64 word \<Rightarrow>
   'd list \<times> BucketPosition \<times> 64 word \<times> 64 word \<Rightarrow>
   (fault + unit) \<times> 'd list \<times> BucketPosition \<times> 64 word \<times> 64 word"
where
  "readIncremental_loop env batchSize limit count (docs, internalSkip, skip, tot) =
     (if count < batchSize \<or> 0 < skip then
        (case lookupSequential (index env) internalSkip tot of
           (None, internalSkip', tot') \<Rightarrow> (Inr (), docs, internalSkip', skip, tot')
         | (Some mptr, internalSkip', tot') \<Rightarrow>
             if 0 < skip then
               readIncremental_loop env batchSize limit count (docs, internalSkip', skip - 1, tot')
             else
               (case emplace_back (capacity env) docs mptr of
                  Inl f \<Rightarrow> (Inl f, docs, internalSkip', skip, tot')
                | Inr docs' \<Rightarrow>
                    if limit \<le> count + 1 then (Inr (), docs', internalSkip', skip, tot')
                    else readIncremental_loop env batchSize limit (count + 1)
                           (docs', internalSkip', skip, tot')))
      else (Inr (), docs, internalSkip, skip, tot))"
  by pat_completeness auto

lemma lookupSequential_remaining:
  "lookupSequential idx pos tot = (Some m, pos', tot') \<Longrightarrow> remaining idx pos' < remaining idx pos"
  by (cases pos) (auto split: if_splits)

termination readIncremental_loop
  by (relation "measure (\<lambda>(env, batchSize, limit, count, docs, pos, skip, tot).
        remaining (index env) pos)")
     (auto dest: lookupSequential_remaining [OF sym])

text \<open>
  \<open>readIncremental\<close>: the result code, or the exception that escapes, with the read locks
  held afterwards and the reference arguments.
\<close>

definition readIncremental ::
  "('d, 'r) scan_env \<Rightarrow> nat \<Rightarrow> 'd list \<Rightarrow> BucketPosition \<Rightarrow> 64 word \<Rightarrow> 64 word \<Rightarrow> 64 word \<Rightarrow>
   64 word \<Rightarrow> (fault + errno) \<times> nat \<times> 'd list \<times> BucketPosition \<times> 64 word \<times> 64 word"
where
  "readIncremental env held docs internalSkip batchSize skip limit tot =
     (case lock env held of
        (res, held) \<Rightarrow>
          if res \<noteq> TRI_ERROR_NO_ERROR then (Inr res, held, docs, internalSkip, skip, tot)
          else if \<not> ditch env then
            (Inr TRI_ERROR_OUT_OF_MEMORY, held, docs, internalSkip, skip, tot)
          else
            (case
               (case (if 2048 < batchSize then reserve (capacity env) docs 2048
                      else if 0 < batchSize then reserve (capacity env) docs (unat batchSize)
                      else Inr ()) of
                  Inl f \<Rightarrow> (Inl f, docs, internalSkip, skip, tot)
                | Inr u \<Rightarrow>
                    readIncremental_loop env batchSize limit 0 (docs, internalSkip, skip, tot))
             of
               (Inl f, refs) \<Rightarrow> (Inr TRI_ERROR_OUT_OF_MEMORY, unlock held, refs)
             | (Inr u, refs) \<Rightarrow> (Inr TRI_ERROR_NO_ERROR, unlock held, refs)))"

text \<open>The loop of the batch \<open>any\<close>, over \<open>numRead\<close>, \<open>docs\<close> and the random cursors.\<close>

function any_loop ::
  "('d, 'r) scan_env \<Rightarrow> 64 word \<Rightarrow> 64 word \<Rightarrow> 'd list \<times> 'r \<Rightarrow> (fault + unit) \<times> 'd list \<times> 'r"
where
  "any_loop env batchSize numRead (docs, cursors) =
     (if numRead < batchSize then
        (case lookupRandom env cursors of
           (None, cursors') \<Rightarrow> (Inr (), docs, cursors')
         | (Some mptr, cursors') \<Rightarrow>
             (case emplace_back (capacity env) docs mptr of
                Inl f \<Rightarrow> (Inl f, docs, cursors')
              | Inr docs' \<Rightarrow> any_loop env batchSize (numRead + 1) (docs', cursors')))
      else (Inr (), docs, cursors))"
  by pat_completeness auto

lemma unat_plus_1_below:
  fixes n :: "64 word"
  assumes "n < b"
  shows "unat b - unat (n + 1) < unat b - unat n"
proof -
  have "unat n < unat b" using assms by (simp add: word_less_nat_alt)
  moreover have "unat b < 2 ^ 64" using unsigned_less [of b] by simp
  ultimately have "unat (n + 1) = unat n + 1"
    by (simp add: unat_word_ariths)
  with \<open>unat n < unat b\<close> show ?thesis by simp
qed

termination any_loop
  by (relation "measure (\<lambda>(env, batchSize, numRead, docs, cursors). unat batchSize - unat numRead)")
     (auto intro: unat_plus_1_below)

text \<open>
  The batch \<open>any\<close>: the result code, or the exception that escapes, with the read locks
  held afterwards, \<open>docs\<close> and the random cursors.
\<close>

definition any ::
  "('d, 'r) scan_env \<Rightarrow> nat \<Rightarrow> 'd list \<Rightarrow> 'r \<Rightarrow> 64 word \<Rightarrow> (fault + errno) \<times> nat \<times> 'd list \<times> 'r"
where
  "any env held docs cursors batchSize =
     (case lock env held of
        (res, held) \<Rightarrow>
          if res \<noteq> TRI_ERROR_NO_ERROR then (Inr res, held, docs, cursors)
          else if \<not> ditch env then (Inr TRI_ERROR_OUT_OF_MEMORY, held, docs, cursors)
          else if \<not> 0 < batchSize \<and> assertions env then (Inl AssertionFailed, held, docs, cursors)
          else
            (case any_loop env batchSize 0 (docs, cursors) of
               (Inl f, refs) \<Rightarrow> (Inl f, held, refs)
             | (Inr u, refs) \<Rightarrow> (Inr TRI_ERROR_NO_ERROR, unlock held, refs)))"

text \<open>The loop of \<open>all\<close>: every key of the index, in order.\<close>

function all_loop ::
  "('d, 'r) scan_env \<Rightarrow> string list \<times> BucketPosition \<times> 64 word \<Rightarrow>
   (fault + unit) \<times> string list \<times> BucketPosition \<times> 64 word"
where
  "all_loop env (ids, step, tot) =
     (case lookupSequential (index env) step tot of
        (None, step', tot') \<Rightarrow> (Inr (), ids, step', tot')
      | (Some mptr, step', tot') \<Rightarrow>
          (case emplace_back (capacity env) ids (TRI_EXTRACT_MARKER_KEY env mptr) of
             Inl f \<Rightarrow> (Inl f, ids, step', tot')
           | Inr ids' \<Rightarrow> all_loop env (ids', step', tot')))"
  by pat_completeness auto

termination all_loop
  by (relation "measure (\<lambda>(env, ids, pos, tot). remaining (index env) pos)")
     (auto dest: lookupSequential_remaining [OF sym])

text \<open>
  \<open>all\<close>: the result code, or the exception that escapes, with the read locks held
  afterwards and \<open>ids\<close>; \<open>lck\<close> is the argument \<open>lock\<close>.
\<close>

definition all ::
  "('d, 'r) scan_env \<Rightarrow> nat \<Rightarrow> string list \<Rightarrow> bool \<Rightarrow> (fault + errno) \<times> nat \<times> string list"
where
  "all env held ids lck =
     (case (if lck then lock env held else (TRI_ERROR_NO_ERROR, held)) of
        (res, held) \<Rightarrow>
          if res \<noteq> TRI_ERROR_NO_ERROR then (Inr res, held, ids)
          else if \<not> ditch env then (Inr TRI_ERROR_OUT_OF_MEMORY, held, ids)
          else
            (case (if 0 < length (index env) then all_loop env (ids, Fresh, 0)
                   else (Inr (), ids, Fresh, 0)) of
               (Inl f, ids', rest) \<Rightarrow> (Inl f, held, ids')
             | (Inr u, ids', rest) \<Rightarrow>
                 (Inr TRI_ERROR_NO_ERROR, if lck then unlock held else held, ids')))"

text \<open>
  The loops of \<open>readSlice\<close>. \<open>skip\<close> is an \<open>int64_t\<close> that the loops only move towards 0,
  so it is an integer here.
\<close>

function readSlice_skip_reverse ::
  "'d list \<Rightarrow> int \<Rightarrow> BucketPosition \<Rightarrow> 'd option \<times> int \<times> BucketPosition"
where
  "readSlice_skip_reverse idx skip position =
     (case lookupSequentialReverse idx position of
        (mptr, position') \<Rightarrow>
          if skip + 1 < 0 \<and> mptr \<noteq> None then readSlice_skip_reverse idx (skip + 1) position'
          else (mptr, skip + 1, position'))"
  by pat_completeness auto

termination readSlice_skip_reverse
  by (relation "measure (\<lambda>(idx, skip, position). nat (- skip))") auto

function readSlice_collect_reverse ::
  "('d, 'r) scan_env \<Rightarrow> 64 word \<Rightarrow> 64 word \<Rightarrow> 'd list \<Rightarrow> BucketPosition \<Rightarrow> (fault + unit) \<times> 'd list"
where
  "readSlice_collect_reverse env limit count docs position =
     (case lookupSequentialReverse (index env) position of
        (None, position') \<Rightarrow> (Inr (), docs)
      | (Some mptr, position') \<Rightarrow>
          (case emplace_back (capacity env) docs mptr of
             Inl f \<Rightarrow> (Inl f, docs)
           | Inr docs' \<Rightarrow>
               if count + 1 < limit
               then readSlice_collect_reverse env limit (count + 1) docs' position'
               else (Inr (), docs')))"
  by pat_completeness auto

lemma lookupSequentialReverse_remaining:
  "lookupSequentialReverse idx pos = (Some m, pos') \<Longrightarrow>
     remaining_reverse idx pos' < remaining_reverse idx pos"
  by (cases pos) (auto split: if_splits)

termination readSlice_collect_reverse
  by (relation "measure (\<lambda>(env, limit, count, docs, position).
        remaining_reverse (index env) position)")
     (auto dest: lookupSequentialReverse_remaining [OF sym])

function readSlice_skip_forward ::
  "'d list \<Rightarrow> int \<Rightarrow> BucketPosition \<Rightarrow> 64 word \<Rightarrow> bool \<times> BucketPosition \<times> 64 word"
where
  "readSlice_skip_forward idx skip position tot =
     (if 0 < skip then
        (case lookupSequential idx position tot of
           (mptr, position', tot') \<Rightarrow>
             if mptr = None then (False, position', tot')
             else readSlice_skip_forward idx (skip - 1) position' tot')
      else (True, position, tot))"
  by pat_completeness auto

termination readSlice_skip_forward
  by (relation "measure (\<lambda>(idx, skip, position, tot). nat skip)") auto

function readSlice_collect_forward ::
  "('d, 'r) scan_env \<Rightarrow> 64 word \<Rightarrow> 64 word \<Rightarrow> 'd list \<Rightarrow> BucketPosition \<Rightarrow> 64 word \<Rightarrow>
   (fault + unit) \<times> 'd list \<times> 64 word"
where
  "readSlice_collect_forward env limit count docs position tot =
     (case lookupSequential (index env) position tot of
        (None, position', tot') \<Rightarrow> (Inr (), docs, tot')
      | (Some mptr, position', tot') \<Rightarrow>
          (case emplace_back (capacity env) docs mptr of
             Inl f \<Rightarrow> (Inl f, docs, tot')
           | Inr docs' \<Rightarrow>
               if count + 1 < limit
               then readSlice_collect_forward env limit (count + 1) docs' position' tot'
               else (Inr (), docs', tot')))"
  by pat_completeness auto

termination readSlice_collect_forward
  by (relation "measure (\<lambda>(env, limit, count, docs, position, tot).
        remaining (index env) position)")
     (auto dest: lookupSequential_remaining [OF sym])

text \<open>
  \<open>readSlice\<close>: the result code, or the exception that escapes, with the read locks held
  afterwards, \<open>docs\<close> and \<open>total\<close>.
\<close>

definition readSlice ::
  "('d, 'r) scan_env \<Rightarrow> nat \<Rightarrow> 'd list \<Rightarrow> int \<Rightarrow> 64 word \<Rightarrow> 64 word \<Rightarrow>
   (fault + errno) \<times> nat \<times> 'd list \<times> 64 word"
where
  "readSlice env held docs skip limit tot =
     (if limit = 0 then (Inr TRI_ERROR_NO_ERROR, held, docs, tot)
      else
        (case lock env held of
           (res, held) \<Rightarrow>
             if res \<noteq> TRI_ERROR_NO_ERROR then (Inr res, held, docs, tot)
             else if \<not> ditch env then (Inr TRI_ERROR_OUT_OF_MEMORY, held, docs, tot)
             else if skip < 0 then
               (case readSlice_skip_reverse (index env) skip Fresh of
                  (mptr, skip', position) \<Rightarrow>
                    if mptr = None then (Inr TRI_ERROR_NO_ERROR, unlock held, docs, tot)
                    else
                      (case readSlice_collect_reverse env limit 0 docs position of
                         (Inl f, docs') \<Rightarrow> (Inl f, held, docs', tot)
                       | (Inr u, docs') \<Rightarrow> (Inr TRI_ERROR_NO_ERROR, unlock held, docs', tot)))
             else
               (case readSlice_skip_forward (index env) skip Fresh tot of
                  (skipped, position, tot') \<Rightarrow>
                    if \<not> skipped then (Inr TRI_ERROR_NO_ERROR, unlock held, docs, tot')
                    else
                      (case readSlice_collect_forward env limit 0 docs position tot' of
                         (Inl f, docs', tot'') \<Rightarrow> (Inl f, held, docs', tot'')
                       | (Inr u, docs', tot'') \<Rightarrow>
                           (Inr TRI_ERROR_NO_ERROR, unlock held, docs', tot'')))))"

text \<open>The equations of the loops are unfolded by hand, one iteration at a time.\<close>

declare readIncremental_loop.simps [simp del]
declare any_loop.simps [simp del]
declare all_loop.simps [simp del]
declare readSlice_skip_reverse.simps [simp del]
declare readSlice_collect_reverse.simps [simp del]
declare readSlice_skip_forward.simps [simp del]
declare readSlice_collect_forward.simps [simp del]

text \<open>The cursor of a reverse traversal of \<open>n\<close> entries that has returned \<open>j\<close> of them.\<close>

definition reverse_cursor :: "nat \<Rightarrow> nat \<Rightarrow> BucketPosition" where
  "reverse_cursor n j = (if j = 0 then Fresh else if j < n then At (n - 1 - j) else Exhausted)"

section \<open>Example collections\<close>

text \<open>
  A collection for the examples: the name \<open>users\<close> resolves to id 258, every key reads as
  a document of revision 5, the physical insert stores the slice it is handed, the
  physical remove reports revision 5, and \<open>StringUtils::uint64\<close> reads \<open>5\<close> and \<open>7\<close> and
  gives 0 for anything else.
\<close>

definition example_env :: "vpack list collaborators" where
  "example_env =
     \<lparr>getCollectionId = (\<lambda>n. if n = ''users'' then 258 else 0),
      uint64 = (\<lambda>s. if s = ''5'' then 5 else if s = ''7'' then 7 else 0),
      orderDitch = (\<lambda>cid. True),
      isLocked = (\<lambda>cid a. False),
      doc_read = (\<lambda>c cid k l. (TRI_ERROR_NO_ERROR,
        \<lparr>rid = 5, getDataPtr = Some (VObject [(''_key'', VString k), (''n'', VUInt 1)])\<rparr>)),
      doc_insert = (\<lambda>c cid d l w. (TRI_ERROR_NO_ERROR, \<lparr>rid = 42, getDataPtr = Some d\<rparr>, d # c)),
      doc_remove = (\<lambda>c cid d p l w. (TRI_ERROR_NO_ERROR, 5, c)),
      generate = (\<lambda>t. to_string (unat t)),
      validate = (\<lambda>k r. if k = [] then TRI_ERROR_ARANGO_DOCUMENT_KEY_BAD else TRI_ERROR_NO_ERROR),
      maintainer = True\<rparr>"

text \<open>
  An index of five documents in the order \<open>A, B, C, D, E\<close>, with a lock that can be taken,
  a ditch that can be ordered and room for 100 results.
\<close>

definition example_scan :: "(string, unit) scan_env" where
  "example_scan =
     \<lparr>lock_res = TRI_ERROR_NO_ERROR, ditch = True,
      index = [''A'', ''B'', ''C'', ''D'', ''E''], capacity = 100,
      lookupRandom = (\<lambda>r. (Some ''B'', r)), TRI_EXTRACT_MARKER_KEY = (\<lambda>d. d),
      assertions = True\<rparr>"

section \<open>Properties of datafile.h\<close>

lemma AlignedSize_take_bit: "AlignedSize (v::'a::len word) = (v + 7) - take_bit 3 (v + 7)"
  unfolding AlignedSize_def
  by (simp add: take_bit_eq_mask mask_eq_exp_minus_1)

lemma unat_AlignedSize:
  fixes v :: "'a::len word"
  shows "unat (AlignedSize v) = unat (v + 7) - unat (v + 7) mod 8"
proof -
  have tb: "unat (take_bit 3 (v + 7)) = unat (v + 7) mod 8"
  proof -
    have "unat (take_bit 3 (v + 7)) = take_bit 3 (unat (v + 7))"
      by (rule unsigned_take_bit_eq)
    then show ?thesis by (simp only: take_bit_eq_mod) simp
  qed
  have le: "take_bit 3 (v + 7) \<le> v + 7"
    unfolding word_le_nat_alt tb by simp
  have "unat ((v + 7) - take_bit 3 (v + 7)) = unat (v + 7) - unat (take_bit 3 (v + 7))"
    using le by (rule unat_sub)
  then show ?thesis
    unfolding AlignedSize_take_bit tb .
qed

lemma unat_plus_7:
  fixes v :: "'a::len word"
  assumes "unat v + 7 < 2 ^ LENGTH('a)"
  shows "unat (v + 7) = unat v + 7"
proof -
  have "unat (7 :: 'a word) = 7"
    using assms by (simp add: unat_of_nat take_bit_nat_eq_self)
  then show ?thesis
    using assms by (simp add: unat_word_ariths)
qed

text \<open>
  C7, as stated, fails: at the 32-bit type, \<open>n = 2^32 - 1\<close> makes \<open>n + 7\<close> wrap around
  to 6, so the aligned size is 0 and lies below \<open>n\<close>.
\<close>

theorem AlignedSize_wraps_below_input:
  "AlignedSize (0xFFFFFFFF :: 32 word) = 0 \<and> \<not> (0xFFFFFFFF :: 32 word) \<le> AlignedSize 0xFFFFFFFF"
  by (simp add: AlignedSize_def)

text \<open>
  C7, amended: at every width, \<open>AlignedSize n\<close> is a multiple of 8 for every \<open>n\<close>, and
  it is at least \<open>n\<close> whenever \<open>n + 7\<close> does not wrap around, that is \<open>n + 7 < 2^w\<close>.
\<close>

theorem AlignedSize_multiple_of_8_and_ge:
  fixes n :: "'a::len word"
  shows "8 dvd unat (AlignedSize n) \<and>
         (unat n + 7 < 2 ^ LENGTH('a) \<longrightarrow> n \<le> AlignedSize n)"
proof
  show "8 dvd unat (AlignedSize n)"
    unfolding unat_AlignedSize by (rule dvd_minus_mod)
next
  show "unat n + 7 < 2 ^ LENGTH('a) \<longrightarrow> n \<le> AlignedSize n"
  proof
    assume b: "unat n + 7 < 2 ^ LENGTH('a)"
    have e: "unat (AlignedSize n) = (unat n + 7) - (unat n + 7) mod 8"
      using b by (simp add: unat_AlignedSize unat_plus_7)
    have "(unat n + 7) mod 8 < 8" by simp
    then have "unat n \<le> (unat n + 7) - (unat n + 7) mod 8" by linarith
    then show "n \<le> AlignedSize n" by (simp add: e word_le_nat_alt)
  qed
qed

theorem AlignedSize_multiple_of_8_and_ge_witness:
  "unat (13 :: 32 word) + 7 < 2 ^ LENGTH(32) \<and> 8 dvd unat (AlignedSize (13 :: 32 word)) \<and>
   (13 :: 32 word) \<le> AlignedSize 13 \<and> AlignedSize (13 :: 32 word) = 16"
  using AlignedSize_multiple_of_8_and_ge [of "13 :: 32 word"] by (simp add: AlignedSize_def)

text \<open>
  C6, as stated, fails: with assertions compiled out, \<open>VPackOffset\<close> on the marker type
  \<open>TRI_DF_MARKER_HEADER\<close> (1000), which carries no payload, does not fail; it returns 0.
\<close>

theorem VPackOffset_header_returns_0_without_assertions:
  "(1000 :: TRI_df_marker_type_t) \<noteq> TRI_WAL_MARKER_VPACK_DOCUMENT \<and>
   (1000 :: TRI_df_marker_type_t) \<noteq> TRI_WAL_MARKER_VPACK_REMOVE \<and>
   VPackOffset False 8 1000 = Inr 0 \<and> VPackOffset False 8 1000 \<noteq> Inl AssertionFailed"
  by (simp add: VPackOffset_def TRI_ASSERT_def TRI_WAL_MARKER_VPACK_DOCUMENT_def
      TRI_WAL_MARKER_VPACK_REMOVE_def)

text \<open>
  C6, amended: \<open>VPackOffset\<close> returns \<open>sizeof(TRI_df_marker_t) + sizeof(TRI_voc_tid_t)\<close>
  for exactly the marker types \<open>VPACK_DOCUMENT\<close> and \<open>VPACK_REMOVE\<close>; for every other type
  it reaches \<open>TRI_ASSERT(false)\<close>: the call fails there when assertions are compiled in,
  and returns 0 when they are compiled out.
\<close>

theorem VPackOffset_payload_types:
  "((VPackOffset m sz t = Inr (sizeof_TRI_df_marker_t + sz)) \<longleftrightarrow>
      (t = TRI_WAL_MARKER_VPACK_DOCUMENT \<or> t = TRI_WAL_MARKER_VPACK_REMOVE)) \<and>
   (t \<noteq> TRI_WAL_MARKER_VPACK_DOCUMENT \<and> t \<noteq> TRI_WAL_MARKER_VPACK_REMOVE \<longrightarrow>
      VPackOffset True sz t = Inl AssertionFailed \<and> VPackOffset False sz t = Inr 0)"
  by (simp add: VPackOffset_def TRI_ASSERT_def sizeof_TRI_df_marker_t_def)

theorem VPackOffset_payload_types_witness:
  "(1000 :: TRI_df_marker_type_t) \<noteq> TRI_WAL_MARKER_VPACK_DOCUMENT \<and>
   (1000 :: TRI_df_marker_type_t) \<noteq> TRI_WAL_MARKER_VPACK_REMOVE \<and>
   VPackOffset True 8 1000 = Inl AssertionFailed \<and> VPackOffset False 8 1000 = Inr 0 \<and>
   VPackOffset True 8 5001 = Inr 32"
  using VPackOffset_payload_types [of True 8 1000] VPackOffset_payload_types [of True 8 5001]
  by (simp add: TRI_WAL_MARKER_VPACK_DOCUMENT_def TRI_WAL_MARKER_VPACK_REMOVE_def
      sizeof_TRI_df_marker_t_def)

section \<open>Properties of begin, commit and abort\<close>




text \<open>
  C9: whenever the handle is null or the status is not \<open>RUNNING\<close>, commit and abort, of
  real and non-real transactions alike, return the transaction-internal error and leave
  the transaction, its handle and the storage as they were.
\<close>

theorem commit_abort_not_running:
  assumes "trx t = None \<or> getStatus t \<noteq> TRI_TRANSACTION_RUNNING"
  shows "commit C t = (TRI_ERROR_TRANSACTION_INTERNAL, t) \<and>
         abort A t = (TRI_ERROR_TRANSACTION_INTERNAL, t)"
  using assms by (auto simp: commit_def abort_def split: option.splits)

text \<open>
  The instance of C9 after a successful commit of a top-level non-real transaction: the
  status is then \<open>COMMITTED\<close>, and a second commit fails.
\<close>

theorem commit_abort_not_running_witness:
  "commit (\<lambda>h n s. (TRI_ERROR_NO_ERROR, h, s))
     \<lparr>trx = Some \<lparr>status = TRI_TRANSACTION_RUNNING\<rparr>, setupState = TRI_ERROR_NO_ERROR,
      nestingLevel = 0, isReal = False, hints = 0, storage = ()\<rparr> =
     (TRI_ERROR_NO_ERROR,
      \<lparr>trx = Some \<lparr>status = TRI_TRANSACTION_COMMITTED\<rparr>, setupState = TRI_ERROR_NO_ERROR,
       nestingLevel = 0, isReal = False, hints = 0, storage = ()\<rparr>) \<and>
   getStatus \<lparr>trx = Some \<lparr>status = TRI_TRANSACTION_COMMITTED\<rparr>, setupState = TRI_ERROR_NO_ERROR,
       nestingLevel = 0, isReal = False, hints = 0, storage = ()\<rparr> \<noteq> TRI_TRANSACTION_RUNNING \<and>
   commit (\<lambda>h n s. (TRI_ERROR_NO_ERROR, h, s))
     \<lparr>trx = Some \<lparr>status = TRI_TRANSACTION_COMMITTED\<rparr>, setupState = TRI_ERROR_NO_ERROR,
      nestingLevel = 0, isReal = False, hints = 0, storage = ()\<rparr> =
     (TRI_ERROR_TRANSACTION_INTERNAL,
      \<lparr>trx = Some \<lparr>status = TRI_TRANSACTION_COMMITTED\<rparr>, setupState = TRI_ERROR_NO_ERROR,
       nestingLevel = 0, isReal = False, hints = 0, storage = ()\<rparr>)"
  using commit_abort_not_running
    [of "\<lparr>trx = Some \<lparr>status = TRI_TRANSACTION_COMMITTED\<rparr>, setupState = TRI_ERROR_NO_ERROR,
          nestingLevel = 0, isReal = False, hints = 0, storage = ()\<rparr>"
        "\<lambda>h n s. (TRI_ERROR_NO_ERROR, h, s)" "\<lambda>h n s. (TRI_ERROR_NO_ERROR, h, s)"]
  by (simp add: commit_def getStatus_def)

section \<open>Properties of document, insert and remove\<close>

lemmas attr_defs = TRI_VOC_ATTRIBUTE_KEY_def TRI_VOC_ATTRIBUTE_REV_def TRI_VOC_ATTRIBUTE_ID_def

lemma map_of_merge_left:
  "map_of (fst (merge_left l rv) @ snd (merge_left l rv)) k =
     (case map_of rv k of Some v \<Rightarrow> Some v | None \<Rightarrow> map_of l k)"
proof (induction l arbitrary: rv)
  case Nil
  then show ?case by (simp split: option.splits)
next
  case (Cons a l)
  obtain k0 v0 where a: "a = (k0, v0)" by (cases a)
  show ?case
  proof (cases "map_of rv k0")
    case None
    then show ?thesis
      using Cons.IH [of rv] a by (auto simp: map_add_def split: prod.splits option.splits)
  next
    case (Some v')
    then show ?thesis
      using Cons.IH [of "AList.delete k0 rv"] a
      by (auto simp: map_add_def map_of_delete split: prod.splits option.splits)
  qed
qed

lemma VPackCollection_merge_get:
  assumes "VPackCollection_merge (VObject l) (VObject r) = Inr (VObject m)"
  shows "map_of m k = (case map_of r k of Some v \<Rightarrow> Some v | None \<Rightarrow> map_of l k)"
proof -
  have "m = fst (merge_left l (AList.clearjunk r)) @ snd (merge_left l (AList.clearjunk r))"
    using assms by (simp split: prod.splits)
  then show ?thesis
    using map_of_merge_left [of l "AList.clearjunk r" k] by (simp add: map_of_clearjunk)
qed

lemma VPackCollection_merge_objects:
  "\<exists>m. VPackCollection_merge (VObject l) (VObject r) = Inr (VObject m)"
  by (simp split: prod.splits)

lemma extract_rev_zero:
  assumes "r = VInt 0 \<or> r = VUInt 0 \<or> (\<exists>s. r = VString s \<and> uint64 env s = 0) \<or>
           (\<not> isString r \<and> \<not> isInteger r)"
  shows "extract_rev env r = Inr 0"
  using assms by (auto simp: extract_rev_def bind_fault_def)

text \<open>
  C2: the claim describes the intended response, and the code misses it. A remove of key
  \<open>k1\<close> from collection \<open>users\<close> that succeeds, the key given as a string or as the \<open>_key\<close>
  of an object, answers with \<open>_id = "users/"\<close> and \<open>_key = ""\<close>: the local \<open>key\<close> the
  response is built from is never assigned. The \<open>_rev\<close> is the revision the physical
  remove reported.
\<close>

theorem removeLocal_drops_key:
  "removeLocal example_env [] ''users'' (VString ''k1'') False =
     (Inr \<lparr>code = TRI_ERROR_NO_ERROR,
          buffer = Some (VObject [(''_id'', VString ''users/''), (''_rev'', VString ''5''),
                                  (''_key'', VString [])])\<rparr>, []) \<and>
   removeLocal example_env [] ''users'' (VObject [(''_key'', VString ''k1'')]) False =
     (Inr \<lparr>code = TRI_ERROR_NO_ERROR,
          buffer = Some (VObject [(''_id'', VString ''users/''), (''_rev'', VString ''5''),
                                  (''_key'', VString [])])\<rparr>, [])"
  by (simp add: removeLocal_def example_env_def attr_defs bind_fault_def extract_rev_def
      to_string.simps digit_char_def)

text \<open>The same for every call: a successful remove answers with the empty key.\<close>

lemma removeLocal_success_key_empty:
  assumes "removeLocal env c name value w = (Inr result, c')"
    and "code result = TRI_ERROR_NO_ERROR"
  shows "\<exists>rev. buffer result = Some (VObject
           [(''_id'', VString (name @ ''/'')), (''_rev'', VString rev), (''_key'', VString [])])"
  using assms
  unfolding removeLocal_def Let_def OperationResult_code_def attr_defs bind_fault_def
  by (auto split: if_splits sum.splits prod.splits)

text \<open>
  C4, as stated, fails: a read that supplies the integer 0 as \<open>_rev\<close> finds a document of
  revision 5 and returns it; no conflict is reported although 0 differs from 5.
\<close>

theorem documentLocal_zero_rev_unchecked:
  "documentLocal example_env [] ''users'' (VObject [(''_key'', VString ''k1''), (''_rev'', VUInt 0)]) =
     Inr \<lparr>code = TRI_ERROR_NO_ERROR,
          buffer = Some (VObject [(''_key'', VString ''k1''), (''n'', VUInt 1)])\<rparr> \<and>
   rid (snd (doc_read example_env [] 258 ''k1'' True)) = 5"
  by (simp add: documentLocal_def example_env_def attr_defs bind_fault_def TRI_ASSERT_def
      extract_rev_def)

text \<open>
  C4, amended: for every read of an object whose \<open>_key\<close> is a string and whose \<open>_rev\<close>, a
  string or an integer, parses to a revision other than 0, in a known collection, with a
  ditch and a successful lookup: the read fails with \<open>CONFLICT\<close> and returns no document
  when that revision differs from the revision of the document found, and returns the
  document body with no error when it equals it.
\<close>

theorem documentLocal_revision_check:
  assumes cid: "getCollectionId env name = cid" "cid \<noteq> 0"
    and key: "map_of kvs ''_key'' = Some (VString key)"
    and rev: "map_of kvs ''_rev'' = Some r" "isString r \<or> isInteger r"
             "extract_rev env r = Inr e" "e \<noteq> 0"
    and ditch: "orderDitch env cid"
    and rd: "doc_read env c cid key (\<not> isLocked env cid TRI_TRANSACTION_READ) =
               (TRI_ERROR_NO_ERROR, mptr)"
    and body: "getDataPtr mptr = Some body"
  shows "documentLocal env c name (VObject kvs) =
           Inr (if e \<noteq> rid mptr then \<lparr>code = TRI_ERROR_ARANGO_CONFLICT, buffer = None\<rparr>
                else \<lparr>code = TRI_ERROR_NO_ERROR, buffer = Some body\<rparr>)"
  using assms
  by (simp add: documentLocal_def attr_defs bind_fault_def TRI_ASSERT_def OperationResult_code_def)

theorem documentLocal_revision_check_witness:
  "documentLocal example_env [] ''users'' (VObject [(''_key'', VString ''k1''), (''_rev'', VString ''7'')]) =
     Inr \<lparr>code = TRI_ERROR_ARANGO_CONFLICT, buffer = None\<rparr> \<and>
   documentLocal example_env [] ''users'' (VObject [(''_key'', VString ''k1''), (''_rev'', VInt 5)]) =
     Inr \<lparr>code = TRI_ERROR_NO_ERROR,
          buffer = Some (VObject [(''_key'', VString ''k1''), (''n'', VUInt 1)])\<rparr>"
  using documentLocal_revision_check
      [where env = example_env and name = "''users''" and cid = 258 and c = "[]"
         and kvs = "[(''_key'', VString ''k1''), (''_rev'', VString ''7'')]" and key = "''k1''"
         and r = "VString ''7''" and e = 7
         and mptr = "\<lparr>rid = 5, getDataPtr = Some (VObject [(''_key'', VString ''k1''), (''n'', VUInt 1)])\<rparr>"
         and body = "VObject [(''_key'', VString ''k1''), (''n'', VUInt 1)]"]
    documentLocal_revision_check
      [where env = example_env and name = "''users''" and cid = 258 and c = "[]"
         and kvs = "[(''_key'', VString ''k1''), (''_rev'', VInt 5)]" and key = "''k1''"
         and r = "VInt 5" and e = 5
         and mptr = "\<lparr>rid = 5, getDataPtr = Some (VObject [(''_key'', VString ''k1''), (''n'', VUInt 1)])\<rparr>"
         and body = "VObject [(''_key'', VString ''k1''), (''n'', VUInt 1)]"]
  by (simp add: example_env_def extract_rev_def bind_fault_def)

text \<open>
  C5: for every insert of an object into a known collection whose \<open>_key\<close> is absent, or
  a string the key generator accepts, with a ditch and a physical insert that stores the
  slice it is handed: the stored document keeps the caller's \<open>_key\<close> when there is one
  and gets the key generated from the tick when there is none; its \<open>_rev\<close> is the decimal
  string of the tick and its \<open>_id\<close> the tag byte \<open>0xf3\<close> followed by the 8 bytes of the
  collection id, whatever the caller supplied for them; every other attribute is the
  caller's.
\<close>

theorem insertLocal_stored_document:
  fixes env :: "vpack list collaborators"
  assumes cid: "getCollectionId env name = cid" "cid \<noteq> 0"
    and ditch: "orderDitch env cid"
    and store: "\<forall>d l w. fst (doc_insert env c cid d l w) = TRI_ERROR_NO_ERROR \<and>
                         snd (snd (doc_insert env c cid d l w)) = d # c"
    and key: "map_of kvs ''_key'' = None \<or>
              (\<exists>s. map_of kvs ''_key'' = Some (VString s) \<and> validate env s False = TRI_ERROR_NO_ERROR)"
  shows "\<exists>D. snd (insertLocal env c tick name (VObject kvs) w) = VObject D # c \<and>
           map_of D ''_key'' =
             (case map_of kvs ''_key'' of None \<Rightarrow> Some (VString (generate env tick))
                                       | Some k \<Rightarrow> Some k) \<and>
           map_of D ''_rev'' = Some (VString (to_string (unat tick))) \<and>
           map_of D ''_id'' = Some (VCustom (0xf3 # storeNumber cid 8)) \<and>
           (\<forall>a. a \<notin> {''_key'', ''_rev'', ''_id''} \<longrightarrow> map_of D a = map_of kvs a)"
proof -
  define mk where "mk = (case map_of kvs ''_key'' of
      None \<Rightarrow> [(''_key'', VString (generate env tick))] | Some k \<Rightarrow> [])"
  define mg where "mg = mk @ [(''_rev'', VString (to_string (unat tick))),
                              (''_id'', VCustom (0xf3 # storeNumber cid 8))]"
  obtain D where D: "VPackCollection_merge (VObject kvs) (VObject mg) = Inr (VObject D)"
    using VPackCollection_merge_objects by blast
  have keyres: "bind_fault (get (VObject kvs) TRI_VOC_ATTRIBUTE_KEY) (\<lambda>key.
             if isNone key then
               Inr (Inr [(TRI_VOC_ATTRIBUTE_KEY, VString (generate env tick))])
             else if \<not> isString key then Inr (Inl TRI_ERROR_ARANGO_DOCUMENT_KEY_BAD)
             else
               bind_fault (copyString key) (\<lambda>s.
                 let res = validate env s False in
                 if res \<noteq> TRI_ERROR_NO_ERROR then Inr (Inl res) else Inr (Inr []))) = Inr (Inr mk)"
    using key by (auto simp: mk_def bind_fault_def attr_defs)
  obtain res mptr c' where ins: "doc_insert env c cid (VObject D)
       (\<not> isLocked env cid TRI_TRANSACTION_WRITE) w = (res, mptr, c')"
    by (cases "doc_insert env c cid (VObject D) (\<not> isLocked env cid TRI_TRANSACTION_WRITE) w") auto
  have res: "res = TRI_ERROR_NO_ERROR" and c': "c' = VObject D # c"
    using store [rule_format, of "VObject D" "\<not> isLocked env cid TRI_TRANSACTION_WRITE" w] ins
    by simp_all
  have "snd (insertLocal env c tick name (VObject kvs) w) = VObject D # c"
    apply (simp only: insertLocal_def keyres)
    apply (simp add: Let_def cid ditch D [unfolded mg_def] ins [unfolded res c'] attr_defs
        del: VPackCollection_merge.simps)
    done
  moreover have m: "\<And>a. map_of D a = (case map_of mg a of Some v \<Rightarrow> Some v | None \<Rightarrow> map_of kvs a)"
    using D by (rule VPackCollection_merge_get)
  have "map_of D ''_key'' =
             (case map_of kvs ''_key'' of None \<Rightarrow> Some (VString (generate env tick))
                                       | Some k \<Rightarrow> Some k)"
    unfolding m by (simp add: mg_def mk_def split: option.splits)
  moreover have "map_of D ''_rev'' = Some (VString (to_string (unat tick)))"
    unfolding m by (simp add: mg_def mk_def split: option.splits)
  moreover have "map_of D ''_id'' = Some (VCustom (0xf3 # storeNumber cid 8))"
    unfolding m by (simp add: mg_def mk_def split: option.splits)
  moreover have "\<forall>a. a \<notin> {''_key'', ''_rev'', ''_id''} \<longrightarrow> map_of D a = map_of kvs a"
    unfolding m by (simp add: mg_def mk_def split: option.splits)
  ultimately show ?thesis by blast
qed

theorem insertLocal_stored_document_witness:
  "getCollectionId example_env ''users'' = 258 \<and> orderDitch example_env 258 \<and>
   snd (insertLocal example_env [] 42 ''users''
          (VObject [(''name'', VString ''ann''), (''_id'', VString ''x/y''), (''_rev'', VString ''1'')])
          False) =
     [VObject [(''name'', VString ''ann''), (''_id'', VCustom [0xf3, 2, 1, 0, 0, 0, 0, 0, 0]),
               (''_rev'', VString ''42''), (''_key'', VString ''42'')]] \<and>
   snd (insertLocal example_env [] 42 ''users''
          (VObject [(''_key'', VString ''k1''), (''_rev'', VUInt 7)]) False) =
     [VObject [(''_key'', VString ''k1''), (''_rev'', VString ''42''),
               (''_id'', VCustom [0xf3, 2, 1, 0, 0, 0, 0, 0, 0])]]"
  using insertLocal_stored_document
      [where env = example_env and name = "''users''" and cid = 258 and c = "[]" and tick = 42
         and kvs = "[(''name'', VString ''ann''), (''_id'', VString ''x/y''), (''_rev'', VString ''1'')]"
         and w = False]
  by (simp add: insertLocal_def example_env_def attr_defs bind_fault_def TRI_ASSERT_def
      to_string.simps digit_char_def storeNumber_def upt_rec AList.clearjunk.simps AList.delete_eq)

text \<open>
  C10: a \<open>_rev\<close> that is the integer 0, a string \<open>StringUtils::uint64\<close> reads as 0, or
  neither a string nor an integer, is treated as an absent \<open>_rev\<close>: read and remove
  return what they return for the same object without \<open>_rev\<close>; the read returns the
  document found whatever its revision; the remove hands the physical remove the policy
  \<open>LAST_WRITE\<close> with expected revision 0, and its result code and the collection state are
  those of that call.
\<close>

theorem zero_rev_is_no_rev:
  assumes zero: "r = VInt 0 \<or> r = VUInt 0 \<or> (\<exists>s. r = VString s \<and> uint64 env s = 0) \<or>
                 (\<not> isString r \<and> \<not> isInteger r)"
    and rev: "map_of kvs ''_rev'' = Some r"
    and norev: "map_of kvs' ''_rev'' = None"
    and same: "map_of kvs' ''_key'' = map_of kvs ''_key''"
    and key: "map_of kvs ''_key'' = Some (VString key)"
    and cid: "getCollectionId env name = cid" "cid \<noteq> 0"
  shows "documentLocal env c name (VObject kvs) = documentLocal env c name (VObject kvs') \<and>
         removeLocal env c name (VObject kvs) w = removeLocal env c name (VObject kvs') w \<and>
         (orderDitch env cid \<and>
          doc_read env c cid key (\<not> isLocked env cid TRI_TRANSACTION_READ) =
            (TRI_ERROR_NO_ERROR, mptr) \<and> getDataPtr mptr = Some body \<longrightarrow>
            documentLocal env c name (VObject kvs) =
              Inr \<lparr>code = TRI_ERROR_NO_ERROR, buffer = Some body\<rparr>) \<and>
         (\<exists>res actualRevision c'.
            doc_remove env c cid (VObject [(''_key'', VString key), (''_rev'', VString ''0'')])
              \<lparr>policy_type = TRI_DOC_UPDATE_LAST_WRITE, policy_expectedRevision = 0\<rparr>
              (\<not> isLocked env cid TRI_TRANSACTION_WRITE) w = (res, actualRevision, c') \<and>
            (\<exists>result. removeLocal env c name (VObject kvs) w = (Inr result, c') \<and>
                       code result = res))"
proof -
  have z: "extract_rev env r = Inr 0" using zero by (rule extract_rev_zero)
  have n: "extract_rev env VNone = Inr 0" by (simp add: extract_rev_def)
  have t0: "to_string 0 = ''0''" by (simp add: to_string.simps digit_char_def)
  have 1: "documentLocal env c name (VObject kvs) = documentLocal env c name (VObject kvs')"
    using rev norev same key z n
    by (simp add: documentLocal_def attr_defs bind_fault_def Let_def)
  have 2: "removeLocal env c name (VObject kvs) w = removeLocal env c name (VObject kvs') w"
    using rev norev same key z n
    by (simp add: removeLocal_def attr_defs bind_fault_def Let_def)
  have 3: "orderDitch env cid \<and>
          doc_read env c cid key (\<not> isLocked env cid TRI_TRANSACTION_READ) =
            (TRI_ERROR_NO_ERROR, mptr) \<and> getDataPtr mptr = Some body \<longrightarrow>
            documentLocal env c name (VObject kvs) =
              Inr \<lparr>code = TRI_ERROR_NO_ERROR, buffer = Some body\<rparr>"
    using rev key z cid
    by (simp add: documentLocal_def attr_defs bind_fault_def TRI_ASSERT_def)
  obtain res a c' where rm:
    "doc_remove env c cid (VObject [(''_key'', VString key), (''_rev'', VString ''0'')])
              \<lparr>policy_type = TRI_DOC_UPDATE_LAST_WRITE, policy_expectedRevision = 0\<rparr>
              (\<not> isLocked env cid TRI_TRANSACTION_WRITE) w = (res, a, c')"
    using prod_cases3 by blast
  have 4: "\<exists>result. removeLocal env c name (VObject kvs) w = (Inr result, c') \<and> code result = res"
    using rev key z cid rm
    by (simp add: removeLocal_def attr_defs bind_fault_def t0 OperationResult_code_def)
  from 1 2 3 4 rm show ?thesis by blast
qed

theorem zero_rev_is_no_rev_witness:
  "uint64 example_env ''abc'' = 0 \<and>
   documentLocal example_env [] ''users''
     (VObject [(''_key'', VString ''k1''), (''_rev'', VString ''abc'')]) =
     Inr \<lparr>code = TRI_ERROR_NO_ERROR,
          buffer = Some (VObject [(''_key'', VString ''k1''), (''n'', VUInt 1)])\<rparr> \<and>
   documentLocal example_env [] ''users''
     (VObject [(''_key'', VString ''k1''), (''_rev'', VString ''abc'')]) =
     documentLocal example_env [] ''users'' (VObject [(''_key'', VString ''k1'')]) \<and>
   removeLocal example_env [] ''users''
     (VObject [(''_key'', VString ''k1''), (''_rev'', VString ''abc'')]) False =
     removeLocal example_env [] ''users'' (VObject [(''_key'', VString ''k1'')]) False"
  using zero_rev_is_no_rev
      [where env = example_env and r = "VString ''abc''" and name = "''users''" and cid = 258
         and kvs = "[(''_key'', VString ''k1''), (''_rev'', VString ''abc'')]"
         and kvs' = "[(''_key'', VString ''k1'')]" and key = "''k1''" and c = "[]" and w = False
         and mptr = "\<lparr>rid = 5, getDataPtr = Some (VObject [(''_key'', VString ''k1''), (''n'', VUInt 1)])\<rparr>"
         and body = "VObject [(''_key'', VString ''k1''), (''n'', VUInt 1)]"]
  by (simp add: example_env_def documentLocal_def removeLocal_def attr_defs bind_fault_def
      extract_rev_def TRI_ASSERT_def to_string.simps digit_char_def)


section \<open>Properties of the scan helpers\<close>

text \<open>
  C1: the claim describes the intended discipline, and the code misses it. With a lock
  that is granted and a ditch that cannot be ordered, each of the four helpers returns
  \<open>TRI_ERROR_OUT_OF_MEMORY\<close> while the read lock it took is still held (one lock held
  afterwards, none before). And in \<open>any\<close>, which has no \<open>try\<close> block, the exception of a
  failing \<open>emplace_back\<close> leaves the function with the lock held.
\<close>

theorem scan_helpers_keep_lock_on_ditch_failure:
  "readIncremental (example_scan\<lparr>ditch := False\<rparr>) 0 [] Fresh 2 0 10 0 =
     (Inr TRI_ERROR_OUT_OF_MEMORY, 1, [], Fresh, 0, 0) \<and>
   any (example_scan\<lparr>ditch := False\<rparr>) 0 [] () 3 = (Inr TRI_ERROR_OUT_OF_MEMORY, 1, [], ()) \<and>
   all (example_scan\<lparr>ditch := False\<rparr>) 0 [] True = (Inr TRI_ERROR_OUT_OF_MEMORY, 1, []) \<and>
   readSlice (example_scan\<lparr>ditch := False\<rparr>) 0 [] 0 9 0 = (Inr TRI_ERROR_OUT_OF_MEMORY, 1, [], 0) \<and>
   any (example_scan\<lparr>capacity := 2\<rparr>) 0 [] () 3 = (Inl BadAlloc, 1, [''B'', ''B''], ())"
  by (simp add: readIncremental_def any_def all_def readSlice_def example_scan_def lock_def
      unlock_def any_loop.simps emplace_back_def)

text \<open>
  The general form of the first defect, and what \<open>readIncremental\<close> does when the ditch
  is there: its lock is given back on success and when an exception is caught.
\<close>

lemma ditch_failure_keeps_lock:
  assumes "lock_res env = TRI_ERROR_NO_ERROR" and "\<not> ditch env"
  shows "fst (snd (readIncremental env held docs pos batchSize skip limit tot)) = Suc held"
    and "fst (snd (any env held docs cursors batchSize)) = Suc held"
    and "fst (snd (all env held ids True)) = Suc held"
    and "limit \<noteq> 0 \<Longrightarrow> fst (snd (readSlice env held docs sk limit tot)) = Suc held"
  using assms
  by (simp_all add: readIncremental_def any_def all_def readSlice_def lock_def)

lemma readIncremental_releases_lock:
  assumes "ditch env"
  shows "fst (snd (readIncremental env held docs pos batchSize skip limit tot)) = held"
  using assms
  by (simp add: readIncremental_def lock_def unlock_def split: prod.splits sum.splits)

lemma reverse_lookup_some:
  assumes "j < length idx"
  shows "lookupSequentialReverse idx (reverse_cursor (length idx) j) =
           (Some (rev idx ! j), reverse_cursor (length idx) (Suc j))"
proof -
  have ne: "idx \<noteq> []" using assms by auto
  show ?thesis
  proof (cases "j = 0")
    case True
    have "length idx = 1 \<or> 1 < length idx" using assms by linarith
    then show ?thesis
      using True ne by (auto simp: reverse_cursor_def rev_nth)
  next
    case False
    with assms show ?thesis
      by (auto simp: reverse_cursor_def rev_nth)
  qed
qed

lemma reverse_lookup_none:
  assumes "length idx \<le> j"
  shows "lookupSequentialReverse idx (reverse_cursor (length idx) j) = (None, Exhausted)"
proof (cases "idx = []")
  case True
  then show ?thesis by (simp add: reverse_cursor_def)
next
  case False
  then have "0 < j" using assms by (cases j) auto
  then show ?thesis using assms by (simp add: reverse_cursor_def)
qed

lemma skip_reverse_enough:
  "j + Suc k \<le> length idx \<Longrightarrow>
     readSlice_skip_reverse idx (- int (Suc k)) (reverse_cursor (length idx) j) =
       (Some (rev idx ! (j + k)), 0, reverse_cursor (length idx) (j + Suc k))"
proof (induction k arbitrary: j)
  case 0
  then have "j < length idx" by simp
  then show ?case
    by (subst readSlice_skip_reverse.simps) (simp add: reverse_lookup_some)
next
  case (Suc k)
  then have j: "j < length idx" by simp
  have ih: "readSlice_skip_reverse idx (- int (Suc k)) (reverse_cursor (length idx) (Suc j)) =
       (Some (rev idx ! (Suc j + k)), 0, reverse_cursor (length idx) (Suc j + Suc k))"
    using Suc.prems by (intro Suc.IH) simp
  have e: "- int (Suc (Suc k)) + 1 = - int (Suc k)" by simp
  show ?case
    apply (subst readSlice_skip_reverse.simps)
    apply (simp only: reverse_lookup_some [OF j] prod.case e)
    using ih apply simp
    done
qed

lemma skip_reverse_short:
  "length idx < j + Suc k \<Longrightarrow>
     fst (readSlice_skip_reverse idx (- int (Suc k)) (reverse_cursor (length idx) j)) = None"
proof (induction k arbitrary: j)
  case 0
  then have "length idx \<le> j" by simp
  then have "lookupSequentialReverse idx (reverse_cursor (length idx) j) = (None, Exhausted)"
    by (rule reverse_lookup_none)
  then show ?case
    by (subst readSlice_skip_reverse.simps) simp
next
  case (Suc k)
  have e: "- int (Suc (Suc k)) + 1 = - int (Suc k)" by simp
  show ?case
  proof (cases "j < length idx")
    case True
    have ih: "fst (readSlice_skip_reverse idx (- int (Suc k))
        (reverse_cursor (length idx) (Suc j))) = None"
      using Suc.prems by (intro Suc.IH) simp
    show ?thesis
      apply (subst readSlice_skip_reverse.simps)
      apply (simp only: reverse_lookup_some [OF True] prod.case e)
      using ih apply simp
      done
  next
    case False
    then have "lookupSequentialReverse idx (reverse_cursor (length idx) j) = (None, Exhausted)"
      by (intro reverse_lookup_none) simp
    then show ?thesis
      by (subst readSlice_skip_reverse.simps) simp
  qed
qed

lemma unat_plus_1:
  fixes n :: "64 word"
  assumes "n < b"
  shows "unat (n + 1) = Suc (unat n)"
proof -
  have "unat n < unat b" using assms by (simp add: word_less_nat_alt)
  moreover have "unat b < 2 ^ 64" using unsigned_less [of b] by simp
  ultimately show ?thesis
    by (simp add: unat_word_ariths)
qed

lemma collect_reverse_all:
  assumes "n = length (index env)"
  shows "count < limit \<Longrightarrow> length docs + (n - j) \<le> capacity env \<Longrightarrow>
     readSlice_collect_reverse env limit count docs (reverse_cursor n j) =
       (Inr (), docs @ take (unat limit - unat count) (drop j (rev (index env))))"
proof (induction "n - j" arbitrary: j count docs)
  case 0
  then have "length (index env) \<le> j" using assms by simp
  then have "lookupSequentialReverse (index env) (reverse_cursor (length (index env)) j) =
      (None, Exhausted)"
    by (rule reverse_lookup_none)
  moreover have "drop j (rev (index env)) = []"
    using \<open>length (index env) \<le> j\<close> by simp
  ultimately show ?case
    unfolding assms
    by (subst readSlice_collect_reverse.simps) simp
next
  case (Suc m)
  then have j: "j < length (index env)" using assms by simp
  let ?r = "rev (index env)"
  have cap: "length docs < capacity env" using Suc.prems(2) Suc.hyps(2) by simp
  have u: "unat (count + 1) = Suc (unat count)" using Suc.prems(1) by (rule unat_plus_1)
  have lt: "unat count < unat limit" using Suc.prems(1) by (simp add: word_less_nat_alt)
  have dr: "drop j ?r = ?r ! j # drop (Suc j) ?r"
    using j by (simp add: Cons_nth_drop_Suc)
  show ?case
  proof (cases "count + 1 < limit")
    case True
    have ih: "readSlice_collect_reverse env limit (count + 1) (docs @ [?r ! j])
        (reverse_cursor n (Suc j)) =
        (Inr (), (docs @ [?r ! j]) @ take (unat limit - unat (count + 1)) (drop (Suc j) ?r))"
      using Suc.hyps(2) Suc.prems(2) True by (intro Suc.hyps(1)) simp_all
    have tk: "take (unat limit - unat count) (drop j ?r) =
        ?r ! j # take (unat limit - unat (count + 1)) (drop (Suc j) ?r)"
      using lt by (simp add: dr u take_Cons')
    show ?thesis
      unfolding assms
      apply (subst readSlice_collect_reverse.simps)
      apply (simp only: reverse_lookup_some [OF j] prod.case option.case)
      using cap True ih [unfolded assms] tk apply (simp add: emplace_back_def)
      done
  next
    case False
    then have "unat limit - unat count = 1"
      using lt u by (simp add: word_less_nat_alt)
    then have tk: "take (unat limit - unat count) (drop j ?r) = [?r ! j]"
      by (simp add: dr)
    show ?thesis
      unfolding assms
      apply (subst readSlice_collect_reverse.simps)
      apply (simp only: reverse_lookup_some [OF j] prod.case option.case)
      using cap False tk apply (simp add: emplace_back_def)
      done
  qed
qed


text \<open>
  C3, as stated, fails: over the five documents \<open>A, B, C, D, E\<close>, \<open>readSlice\<close> with
  \<open>skip = -2\<close> and \<open>limit = 1\<close> returns one document, and it is \<open>C\<close>, the third, not \<open>D\<close>.
\<close>

theorem readSlice_minus_2_returns_third:
  "index example_scan = [''A'', ''B'', ''C'', ''D'', ''E''] \<and>
   readSlice example_scan 0 [] (- 2) 1 0 = (Inr TRI_ERROR_NO_ERROR, 0, [''C''], 0)"
  by (simp add: readSlice_def example_scan_def lock_def unlock_def emplace_back_def
      readSlice_skip_reverse.simps readSlice_collect_reverse.simps)

text \<open>
  C3, amended: with a lock, a ditch and room for the results, \<open>readSlice\<close> with a negative
  \<open>skip\<close> walks backward from the end of the index, passes over \<open>|skip|\<close> entries, and then
  collects up to \<open>limit\<close> further entries while it keeps walking backward: the documents
  appended are the first \<open>limit\<close> entries of the reversed index after its first \<open>|skip|\<close>.
  Over five documents \<open>A, B, C, D, E\<close>, \<open>skip = -2\<close> and \<open>limit = 1\<close> give exactly one
  document, the third (\<open>C\<close>).
\<close>

theorem readSlice_negative_skip:
  assumes lk: "lock_res env = TRI_ERROR_NO_ERROR" and d: "ditch env"
    and s: "skip < 0" and l: "limit \<noteq> 0"
    and cap: "length docs + length (index env) \<le> capacity env"
  shows "readSlice env held docs skip limit tot =
           (Inr TRI_ERROR_NO_ERROR, held,
            docs @ take (unat limit) (drop (nat (- skip)) (rev (index env))), tot)"
proof -
  obtain k where k: "skip = - int (Suc k)"
    using s by (metis add.inverse_inverse neg_0_less_iff_less zero_less_imp_eq_int gr0_implies_Suc)
  have fresh: "Fresh = reverse_cursor (length (index env)) 0"
    by (simp add: reverse_cursor_def)
  have nk: "nat (- skip) = Suc k" using k by simp
  have l0: "0 < limit" using l by (simp add: word_neq_0_conv)
  show ?thesis
  proof (cases "Suc k \<le> length (index env)")
    case True
    have sk: "readSlice_skip_reverse (index env) skip Fresh =
        (Some (rev (index env) ! k), 0, reverse_cursor (length (index env)) (Suc k))"
      unfolding k fresh using skip_reverse_enough [of 0 k "index env"] True by simp
    have co: "readSlice_collect_reverse env limit 0 docs (reverse_cursor (length (index env)) (Suc k)) =
        (Inr (), docs @ take (unat limit - unat (0::64 word)) (drop (Suc k) (rev (index env))))"
      using l0 cap by (intro collect_reverse_all) simp_all
    show ?thesis
      using lk d s l
      by (simp add: readSlice_def lock_def unlock_def sk co nk)
  next
    case False
    have "fst (readSlice_skip_reverse (index env) skip Fresh) = None"
      unfolding k fresh using skip_reverse_short [of "index env" 0 k] False by simp
    then obtain s' p where sk: "readSlice_skip_reverse (index env) skip Fresh = (None, s', p)"
      by (cases "readSlice_skip_reverse (index env) skip Fresh") auto
    have "drop (nat (- skip)) (rev (index env)) = []"
      using False nk by simp
    then show ?thesis
      using lk d s l
      by (simp add: readSlice_def lock_def unlock_def sk)
  qed
qed

theorem readSlice_negative_skip_witness:
  "lock_res example_scan = TRI_ERROR_NO_ERROR \<and> ditch example_scan \<and>
   length ([] :: string list) + length (index example_scan) \<le> capacity example_scan \<and>
   readSlice example_scan 0 [] (- 2) 1 0 = (Inr TRI_ERROR_NO_ERROR, 0, [''C''], 0) \<and>
   readSlice example_scan 0 [] (- 2) 5 0 = (Inr TRI_ERROR_NO_ERROR, 0, [''C'', ''B'', ''A''], 0)"
  using readSlice_negative_skip
      [where env = example_scan and skip = "- 2" and limit = 1 and docs = "[]" and held = 0
         and tot = 0]
    readSlice_negative_skip
      [where env = example_scan and skip = "- 2" and limit = 5 and docs = "[]" and held = 0
         and tot = 0]
  by (simp add: example_scan_def)


end
